theory Spec2Isabelle
  imports Main "HOL-Library.List_Lexorder" "HOL-Library.Char_ord" "HOL-Library.Sublist"
begin

section \<open>Jobs, dates and the errors of package bq\<close>

text \<open>
  A \<open>tracker.Job\<close> is the unit of work: bucket, experiment, datatype and date.  Of the
  date only the calendar fields are read (through \<open>Format\<close>), so a \<open>time.Time\<close> is
  modelled by its year, month and day.
\<close>

record Time =
  Year :: int
  Month :: nat
  Day :: nat

record Job =
  Bucket :: string
  Experiment :: string
  Datatype :: string
  Date :: Time

datatype error =
    ErrDatatypeNotSupported
  | ErrNilBqClient
  | ErrNilQuery
  | ErrDryrunNotImplemented
  | ErrClient string
  | ErrNotFound
  | InvalidPartitionName
  | ErrMetadataUnavailable
  | SanityCheckFailed

subsection \<open>\<open>time.Time.Format\<close> at the two layouts the package uses\<close>

text \<open>
  Go splits a layout into standard chunks and literal text.  The layouts \<open>2006-01-02\<close>
  and \<open>20060102\<close> consist of the chunks \<open>stdLongYear\<close>, \<open>stdZeroMonth\<close> and
  \<open>stdZeroDay\<close>, each printed by \<open>appendInt\<close> with a minimal width (4, 2, 2), zero
  padded, with a leading minus sign for a negative value.
\<close>

definition digitChar :: "nat \<Rightarrow> char" where
  "digitChar d = ''0123456789'' ! (d mod 10)"

fun utoa :: "nat \<Rightarrow> string" where
  "utoa n = (if n < 10 then [digitChar n] else utoa (n div 10) @ [digitChar n])"

declare utoa.simps [simp del]

definition appendInt :: "int \<Rightarrow> nat \<Rightarrow> string" where
  "appendInt x width =
     (let ds = utoa (nat \<bar>x\<bar>)
      in (if x < 0 then ''-'' else []) @ replicate (width - length ds) (CHR ''0'') @ ds)"

datatype stdChunk = stdLongYear | stdZeroMonth | stdZeroDay | literal string

fun formatChunk :: "Time \<Rightarrow> stdChunk \<Rightarrow> string" where
  "formatChunk t stdLongYear = appendInt (Year t) 4"
| "formatChunk t stdZeroMonth = appendInt (int (Month t)) 2"
| "formatChunk t stdZeroDay = appendInt (int (Day t)) 2"
| "formatChunk t (literal s) = s"

definition Format :: "Time \<Rightarrow> stdChunk list \<Rightarrow> string" where
  "Format t layout = concat (map (formatChunk t) layout)"

definition layout_2006_01_02 :: "stdChunk list" where
  "layout_2006_01_02 = [stdLongYear, literal ''-'', stdZeroMonth, literal ''-'', stdZeroDay]"

definition layout_20060102 :: "stdChunk list" where
  "layout_20060102 = [stdLongYear, stdZeroMonth, stdZeroDay]"

section \<open>The query builder\<close>

text \<open>
  The \<open>queryer\<close> struct.  The client is a \<open>bqiface.Client\<close>, compared with \<open>nil\<close>
  before use: an option of the client's project.  \<open>PartitionKeys\<close> is a Go map from
  the single field name to the fully qualified name, kept as an association list whose
  order stands for the unspecified iteration order of the Go map.
\<close>

record bqClient =
  clientProject :: string

record queryer =
  client :: "bqClient option"
  Project :: string
  Date :: string
  Job :: Job
  PartitionKeys :: "(string \<times> string) list"
  OrderKeys :: string

definition NewQuerierWithClient :: "bqClient option \<Rightarrow> Job \<Rightarrow> string \<Rightarrow> error + queryer" where
  "NewQuerierWithClient cl job project =
     (if Datatype job = ''annotation'' then
        Inr \<lparr>client = cl, Project = project, Date = ''date'', Job = job,
             PartitionKeys = [(''id'', ''id'')], OrderKeys = ''''\<rparr>
      else if Datatype job = ''ndt5'' then
        Inr \<lparr>client = cl, Project = project, Date = ''log_time'', Job = job,
             PartitionKeys = [(''test_id'', ''test_id'')], OrderKeys = ''''\<rparr>
      else if Datatype job = ''ndt7'' then
        Inr \<lparr>client = cl, Project = project, Date = ''date'', Job = job,
             PartitionKeys = [(''id'', ''id'')], OrderKeys = ''''\<rparr>
      else Inl ErrDatatypeNotSupported)"

subsection \<open>Template execution\<close>

text \<open>
  The templates are parsed by \<open>html/template\<close>.  Their text never leaves the plain text
  context, so every action's value goes through the package's text escaper, which
  replaces seven ASCII characters (the replacement of NUL is U+FFFD in UTF-8) and copies
  every other byte.  Template text itself is copied unchanged.
\<close>

definition htmlReplacementTable :: "char \<Rightarrow> string" where
  \<open>htmlReplacementTable c =
     (if c = CHR 0x00 then [CHR 0xEF, CHR 0xBF, CHR 0xBD]
      else if c = CHR 0x22 then ''&#34;''
      else if c = CHR ''&'' then ''&amp;''
      else if c = CHR 0x27 then ''&#39;''
      else if c = CHR ''+'' then ''&#43;''
      else if c = CHR ''<'' then ''&lt;''
      else if c = CHR ''>'' then ''&gt;''
      else [c])\<close>

definition htmlEscaper :: "string \<Rightarrow> string" where
  "htmlEscaper s = concat (map htmlReplacementTable s)"

text \<open>
  \<open>range\<close> over a map visits the entries in sorted key order, whatever order the map
  itself would yield them in.
\<close>

definition rangeMap :: "(string \<times> string) list \<Rightarrow> (string \<times> string) list" where
  "rangeMap m =
     List.map_filter (\<lambda>k. map_option (Pair k) (map_of m k)) (sort (remdups (map fst m)))"

datatype rnode = RText string | RKey | RVal

datatype node =
    Text string
  | FProject
  | FExperiment
  | FDatatype
  | FDate
  | FJobDateFormat "stdChunk list"
  | FOrderKeys
  | Range "rnode list"

fun evalRange :: "string \<Rightarrow> string \<Rightarrow> rnode \<Rightarrow> string" where
  "evalRange k v (RText s) = s"
| "evalRange k v RKey = htmlEscaper k"
| "evalRange k v RVal = htmlEscaper v"

fun evalNode :: "queryer \<Rightarrow> node \<Rightarrow> string" where
  "evalNode q (Text s) = s"
| "evalNode q FProject = htmlEscaper (Project q)"
| "evalNode q FExperiment = htmlEscaper (Experiment (Job q))"
| "evalNode q FDatatype = htmlEscaper (Datatype (Job q))"
| "evalNode q FDate = htmlEscaper (Date q)"
| "evalNode q (FJobDateFormat layout) = htmlEscaper (Format (Job.Date (Job q)) layout)"
| "evalNode q FOrderKeys = htmlEscaper (OrderKeys q)"
| "evalNode q (Range body) =
     concat (map (\<lambda>(k, v). concat (map (evalRange k v) body)) (rangeMap (PartitionKeys q)))"

definition execute :: "node list \<Rightarrow> queryer \<Rightarrow> string" where
  "execute t q = concat (map (evalNode q) t)"

subsection \<open>The templates\<close>

definition tmpTable :: "node list" where
  "tmpTable = [Text ''`'', FProject, Text ''.tmp_'', FExperiment, Text ''.'', FDatatype, Text ''`'']"

definition dedupTemplate :: "node list" where
  \<open>dedupTemplate =
    [Text (''\<newline>''
       @ ''#standardSQL\<newline>''
       @ ''# Delete all duplicate rows based on key and prefered priority ordering.\<newline>''
       @ ''# This is resource intensive for tcpinfo - 20 slot hours for 12M rows with 250M snapshots,\<newline>''
       @ ''# roughly proportional to the memory footprint of the table partition.\<newline>''
       @ ''# The query is very cheap if there are no duplicates.\<newline>''
       @ ''DELETE\<newline>''
       @ ''FROM '')]
    @ tmpTable @
    [Text ('' AS target\<newline>''
       @ ''WHERE ''),
     FDate,
     Text '' = "'',
     FJobDateFormat layout_2006_01_02,
     Text (''"\<newline>''
       @ ''# This identifies all rows that don't match rows to preserve.\<newline>''
       @ ''AND NOT EXISTS (\<newline>''
       @ ''  # This creates list of rows to preserve, based on key and priority.\<newline>''
       @ ''  WITH keep AS (\<newline>''
       @ ''  SELECT * EXCEPT(row_number) FROM (\<newline>''
       @ ''    SELECT\<newline>''
       @ ''      ''),
     Range [RVal, RText '', ''],
     Text (''\<newline>''
       @ [CHR 0x09]
       @ ''  parser.Time,\<newline>''
       @ ''      ROW_NUMBER() OVER (\<newline>''
       @ ''        PARTITION BY ''),
     Range [RVal, RText '', ''],
     Text (''date\<newline>''
       @ ''        ORDER BY ''),
     FOrderKeys,
     Text ('' parser.Time DESC\<newline>''
       @ ''      ) row_number\<newline>''
       @ ''      FROM (\<newline>''
       @ ''        SELECT * FROM '')]
    @ tmpTable @
    [Text (''\<newline>''
       @ ''        WHERE ''),
     FDate,
     Text '' = "'',
     FJobDateFormat layout_2006_01_02,
     Text (''"\<newline>''
       @ ''      )\<newline>''
       @ ''    )\<newline>''
       @ ''    WHERE row_number = 1\<newline>''
       @ ''  )\<newline>''
       @ ''  SELECT * FROM keep\<newline>''
       @ ''  # This matches against the keep table based on keys.  Sufficient select keys must be\<newline>''
       @ ''  # used to distinguish the preferred row from the others.\<newline>''
       @ ''  WHERE\<newline>''
       @ ''    ''),
     Range [RText ''target.'', RVal, RText '' = keep.'', RKey, RText '' AND ''],
     Text (''\<newline>''
       @ ''    target.parser.Time = keep.Time\<newline>''
       @ '')'')]\<close>

definition cleanupTemplate :: "node list" where
  \<open>cleanupTemplate =
    [Text (''\<newline>''
       @ ''#standardSQL\<newline>''
       @ ''# Delete all rows in a partition.\<newline>''
       @ ''DELETE\<newline>''
       @ ''FROM '')]
    @ tmpTable @
    [Text (''\<newline>''
       @ ''WHERE ''),
     FDate,
     Text '' = "'',
     FJobDateFormat layout_2006_01_02,
     Text ''"\<newline>'']\<close>

text \<open>
  The source file holds two revisions of the package.  The constructor, \<open>DedupQuery\<close>,
  \<open>CopyToRaw\<close> and \<open>DeleteTmp\<close> are those of the later one (with the ndt5 policy);
  the cleanup template and \<open>QueryFor\<close> with its table of templates exist in the
  earlier one only.  The dedup template is the same text in both.

  \<open>makeQuery\<close> executes a template into a buffer and returns the buffer's content;
  an execution error would only be logged.  No action of these templates can fail on a
  \<open>queryer\<close> (fields, a method call on a \<open>time.Time\<close>, a range over a map), so
  execution always runs to the end.
\<close>

definition makeQuery :: "node list \<Rightarrow> queryer \<Rightarrow> string" where
  "makeQuery t params = execute t params"

definition DedupQuery :: "queryer \<Rightarrow> string" where
  "DedupQuery params = makeQuery dedupTemplate params"

definition queryTemplates :: "(string \<times> node list) list" where
  "queryTemplates = [(''dedup'', dedupTemplate), (''cleanup'', cleanupTemplate)]"

definition QueryFor :: "string \<Rightarrow> queryer \<Rightarrow> string" where
  "QueryFor key params =
     (case map_of queryTemplates key of None \<Rightarrow> [] | Some t \<Rightarrow> makeQuery t params)"

section \<open>Operations on the warehouse\<close>

text \<open>
  A table or partition is addressed by project, dataset and table id (the table id
  carries the \<open>$YYYYMMDD\<close> partition decorator).  The warehouse, which the package
  reaches only through its client, is a map from such references to the rows stored
  there.
\<close>

record TableRef =
  ProjectID :: string
  DatasetID :: string
  TableID :: string

type_synonym warehouse = "TableRef \<rightharpoonup> string list"

datatype TableWriteDisposition = WriteAppend | WriteTruncate | WriteEmpty

record CopyConfig =
  Srcs :: "TableRef list"
  Dst :: TableRef
  WriteDisposition :: TableWriteDisposition

definition Table :: "bqClient \<Rightarrow> string \<Rightarrow> string \<Rightarrow> TableRef" where
  "Table c dataset name = \<lparr>ProjectID = clientProject c, DatasetID = dataset, TableID = name\<rparr>"

text \<open>
  Modelled from the spec: the delete executor, an external collaborator
  (\<open>delete(table, partition) \<rightarrow> error\<close>).  Deleting a partition removes that partition
  and nothing else; deleting one that does not exist is reported and changes nothing.
\<close>

definition tableDelete :: "TableRef \<Rightarrow> warehouse \<Rightarrow> error option \<times> warehouse" where
  "tableDelete t w = (case w t of None \<Rightarrow> (Some ErrNotFound, w) | Some rows \<Rightarrow> (None, w(t := None)))"

fun gather :: "warehouse \<Rightarrow> TableRef list \<Rightarrow> string list option" where
  "gather w [] = Some []"
| "gather w (s # ss) =
     (case w s of None \<Rightarrow> None
      | Some rows \<Rightarrow> (case gather w ss of None \<Rightarrow> None | Some others \<Rightarrow> Some (rows @ others)))"

text \<open>
  Modelled from the spec: the copy executor, an external collaborator
  (\<open>copy(sourceTable, destTable, disposition) \<rightarrow> JobHandle\<close>), with the effect of the
  finished job.  The job handle is represented by the configuration of the job.  With
  \<open>WriteTruncate\<close> the destination is replaced by the copied rows, with
  \<open>WriteAppend\<close> they are added to it, with \<open>WriteEmpty\<close> the destination must hold
  no rows.
\<close>

definition copierRun :: "CopyConfig \<Rightarrow> warehouse \<Rightarrow> (error + CopyConfig) \<times> warehouse" where
  "copierRun cfg w =
     (case gather w (Srcs cfg) of
        None \<Rightarrow> (Inl ErrNotFound, w)
      | Some rows \<Rightarrow>
          (case WriteDisposition cfg of
             WriteTruncate \<Rightarrow> (Inr cfg, w(Dst cfg \<mapsto> rows))
           | WriteAppend \<Rightarrow>
               (Inr cfg, w(Dst cfg \<mapsto> (case w (Dst cfg) of None \<Rightarrow> [] | Some old \<Rightarrow> old) @ rows))
           | WriteEmpty \<Rightarrow>
               (if w (Dst cfg) = None \<or> w (Dst cfg) = Some []
                then (Inr cfg, w(Dst cfg \<mapsto> rows))
                else (Inl (ErrClient ''duplicate''), w))))"

text \<open>
  \<open>CopyToRaw\<close> copies the tmp partition of the job to its raw partition.  It creates a
  client of its own for the project of the queryer's client; \<open>newClient\<close> stands for
  \<open>bigquery.NewClient\<close>, which may fail.  The two metadata reads are only logged.
\<close>

definition CopyToRaw ::
  "(string \<Rightarrow> error + bqClient) \<Rightarrow> queryer \<Rightarrow> bool \<Rightarrow> warehouse \<Rightarrow> (error + CopyConfig) \<times> warehouse" where
  "CopyToRaw newClient params dryRun w =
     (if dryRun then (Inl ErrDryrunNotImplemented, w)
      else case client params of
        None \<Rightarrow> (Inl ErrNilBqClient, w)
      | Some pc \<Rightarrow>
          (case newClient (clientProject pc) of
             Inl err \<Rightarrow> (Inl err, w)
           | Inr c \<Rightarrow>
               (let src = Table c (''tmp_'' @ Experiment (Job params))
                            (Datatype (Job params) @ ''$'' @ Format (Job.Date (Job params)) layout_20060102);
                    dest = Table c (''raw_'' @ Experiment (Job params))
                            (Datatype (Job params) @ ''$'' @ Format (Job.Date (Job params)) layout_20060102);
                    copier = \<lparr>Srcs = [src], Dst = dest, WriteDisposition = WriteTruncate\<rparr>
                in copierRun copier w)))"

text \<open>\<open>DeleteTmp\<close> deletes the tmp table partition of the job.\<close>

definition DeleteTmp :: "queryer \<Rightarrow> warehouse \<Rightarrow> error option \<times> warehouse" where
  "DeleteTmp params w =
     (case client params of
        None \<Rightarrow> (Some ErrNilBqClient, w)
      | Some c \<Rightarrow>
          tableDelete
            (Table c (''tmp_'' @ Experiment (Job params))
               (Datatype (Job params) @ ''$'' @ Format (Job.Date (Job params)) layout_20060102))
            w)"

section \<open>Reading a rendered query\<close>

text \<open>
  Helpers to look at a rendered query: the text after the first occurrence of a
  pattern, and the comma separated column list of the window's \<open>PARTITION BY\<close> line.
\<close>

fun afterFirst :: "string \<Rightarrow> string \<Rightarrow> string option" where
  "afterFirst pat [] = (if pat = [] then Some [] else None)"
| "afterFirst pat (c # cs) =
     (if prefix pat (c # cs) then Some (drop (length pat) (c # cs)) else afterFirst pat cs)"

fun splitCommaSpace :: "string \<Rightarrow> string \<Rightarrow> string list" where
  "splitCommaSpace acc (c # d # cs) =
     (if c = CHR '','' \<and> d = CHR '' '' then rev acc # splitCommaSpace [] cs
      else splitCommaSpace (c # acc) (d # cs))"
| "splitCommaSpace acc [c] = [rev (c # acc)]"
| "splitCommaSpace acc [] = [rev acc]"

definition partitionByColumns :: "string \<Rightarrow> string list" where
  "partitionByColumns text =
     (case afterFirst ''PARTITION BY '' text of
        None \<Rightarrow> []
      | Some rest \<Rightarrow> splitCommaSpace [] (takeWhile (\<lambda>c. c \<noteq> CHR 0x0A) rest))"

section \<open>The partition-name parser\<close>

record tableNameParts =
  prefix' :: string
  isPartitioned :: bool
  yyyymmdd :: string

definition isDigit :: "char \<Rightarrow> bool" where
  "isDigit c = (c \<in> set ''0123456789'')"

definition digitsToNat :: "string \<Rightarrow> nat" where
  "digitsToNat s = foldl (\<lambda>n c. 10 * n + (of_char c - 48)) 0 s"

definition leapYear :: "nat \<Rightarrow> bool" where
  "leapYear y = ((y mod 4 = 0 \<and> y mod 100 \<noteq> 0) \<or> y mod 400 = 0)"

definition daysIn :: "nat \<Rightarrow> nat \<Rightarrow> nat" where
  "daysIn y m =
     (if m = 2 then (if leapYear y then 29 else 28)
      else if m = 4 \<or> m = 6 \<or> m = 9 \<or> m = 11 then 30 else 31)"

definition validDate :: "string \<Rightarrow> bool" where
  "validDate s =
     (length s = 8 \<and> list_all isDigit s \<and>
      (let y = digitsToNat (take 4 s); m = digitsToNat (take 2 (drop 4 s));
           d = digitsToNat (drop 6 s)
       in 1 \<le> m \<and> m \<le> 12 \<and> 1 \<le> d \<and> d \<le> daysIn y m))"

text \<open>A trailing \<open>_digits\<close> group: the name before the underscore and the digits.\<close>

definition trailingDigits :: "string \<Rightarrow> (string \<times> string) option" where
  "trailingDigits name =
     (let ds = takeWhile isDigit (rev name); rest = dropWhile isDigit (rev name)
      in case rest of
           [] \<Rightarrow> None
         | c # front \<Rightarrow> if c = CHR ''_'' \<and> ds \<noteq> [] then Some (rev front, rev ds) else None)"

text \<open>
  Modelled from the spec: \<open>getTableParts\<close>, the partition-name parser, of which the
  repository holds the test only.  It fails with \<open>InvalidPartitionName\<close> when the name
  has more than one partition separator (a \<open>$\<close>, or a trailing \<open>_digits\<close> group), when
  the suffix is not exactly 8 digits, and when the 8 digits are not a calendar date.
  Only the \<open>$YYYYMMDD\<close> form is partitioned; the \<open>_YYYYMMDD\<close> form reports its date
  with \<open>isPartitioned = False\<close>; a name with no separator has no date.
\<close>

definition getTableParts :: "string \<Rightarrow> error + tableNameParts" where
  "getTableParts tableName =
     (let dollars = length (filter (\<lambda>c. c = CHR ''$'') tableName);
          trailing = trailingDigits tableName;
          separators = dollars + (case trailing of None \<Rightarrow> 0 | Some g \<Rightarrow> 1)
      in if 1 < separators then Inl InvalidPartitionName
         else if dollars = 1 then
           (let base = takeWhile (\<lambda>c. c \<noteq> CHR ''$'') tableName;
                date = drop 1 (dropWhile (\<lambda>c. c \<noteq> CHR ''$'') tableName)
            in if validDate date
               then Inr \<lparr>prefix' = base, isPartitioned = True, yyyymmdd = date\<rparr>
               else Inl InvalidPartitionName)
         else case trailing of
           Some (base, date) \<Rightarrow>
             if validDate date
             then Inr \<lparr>prefix' = base, isPartitioned = False, yyyymmdd = date\<rparr>
             else Inl InvalidPartitionName
         | None \<Rightarrow> Inr \<lparr>prefix' = tableName, isPartitioned = False, yyyymmdd = []\<rparr>)"

section \<open>The sanity check before promotion\<close>

record TableMetadata =
  NumRows :: nat
  NumBytes :: nat
  CreationTime :: nat
  LastModifiedTime :: nat
  TimePartitioning :: bool

record Detail =
  TaskFileCount :: nat
  TestCount :: nat

text \<open>
  Modelled from the spec: the table metadata provider, an external collaborator.  A
  fetch yields the value, a well-formed "not found" answer, or fails.
\<close>

datatype 'a fetched = Fetched 'a | NotFound | FetchFailed

record provider =
  metadataOf :: "TableRef \<Rightarrow> TableMetadata fetched"
  detailOf :: "TableRef \<Rightarrow> Detail fetched"

datatype outcome = Promoted | SkippedEmpty

definition emptyPartition :: "TableMetadata fetched \<Rightarrow> bool" where
  "emptyPartition m = (case m of Fetched md \<Rightarrow> NumRows md = 0 | NotFound \<Rightarrow> True | FetchFailed \<Rightarrow> False)"

definition rowsOf :: "TableMetadata fetched \<Rightarrow> nat" where
  "rowsOf m = (case m of Fetched md \<Rightarrow> NumRows md | NotFound \<Rightarrow> 0 | FetchFailed \<Rightarrow> 0)"

definition detailAtLeast :: "Detail fetched \<Rightarrow> Detail fetched \<Rightarrow> bool" where
  "detailAtLeast s d =
     (case (s, d) of
        (Fetched sd, Fetched dd) \<Rightarrow>
          TaskFileCount dd \<le> TaskFileCount sd \<and> TestCount dd \<le> TestCount sd
      | (_, NotFound) \<Rightarrow> True
      | _ \<Rightarrow> False)"

text \<open>
  Modelled from the spec: \<open>SanityCheckAndCopy\<close>, of which the repository holds the
  tests only.  (1) Both table names are parsed, a malformed one fails at once.
  (2) The metadata of both is fetched; a failed fetch is \<open>ErrMetadataUnavailable\<close>,
  but an empty or non-existent source partition is the valid state "nothing to
  promote".  (3) Promotion is safe only if the destination is empty or the counts of the
  source are at least those of the destination.  (4) If safe, the copy runs with the
  whole-partition overwrite disposition and its outcome is returned; if not, an error is
  returned and nothing is changed.  The function deletes nothing.
\<close>

definition SanityCheckAndCopy ::
  "provider \<Rightarrow> TableRef \<Rightarrow> TableRef \<Rightarrow> warehouse \<Rightarrow> (error + outcome) \<times> warehouse" where
  "SanityCheckAndCopy prov src dest w =
     (case getTableParts (TableID src) of
        Inl e \<Rightarrow> (Inl e, w)
      | Inr srcParts \<Rightarrow>
     (case getTableParts (TableID dest) of
        Inl e \<Rightarrow> (Inl e, w)
      | Inr destParts \<Rightarrow>
     (let srcMeta = metadataOf prov src; destMeta = metadataOf prov dest
      in if srcMeta = FetchFailed \<or> destMeta = FetchFailed then (Inl ErrMetadataUnavailable, w)
         else if emptyPartition srcMeta then (Inr SkippedEmpty, w)
         else if emptyPartition destMeta
                 \<or> (rowsOf destMeta \<le> rowsOf srcMeta
                     \<and> detailAtLeast (detailOf prov src) (detailOf prov dest))
         then (case copierRun \<lparr>Srcs = [src], Dst = dest, WriteDisposition = WriteTruncate\<rparr> w of
                 (Inl e, w') \<Rightarrow> (Inl e, w')
               | (Inr job, w') \<Rightarrow> (Inr Promoted, w'))
         else (Inl SanityCheckFailed, w))))"

section \<open>Auxiliary notions for the proofs\<close>

text \<open>A string that the text escaper copies unchanged.\<close>

definition htmlSafe :: "string \<Rightarrow> bool" where
  "htmlSafe s = list_all (\<lambda>c. htmlReplacementTable c = [c]) s"

section \<open>Example inputs\<close>

text \<open>
  A job for 2019-03-04 with the experiment name \<open>r&d\<close>, the builders the constructor
  makes for it, and a warehouse that holds its tmp partition, the tmp partition of the
  next day and an older raw partition.
\<close>

definition exJob :: "string \<Rightarrow> Job" where
  "exJob datatype = \<lparr>Bucket = ''bucket'', Experiment = ''r&d'', Datatype = datatype,
     Job.Date = \<lparr>Year = 2019, Month = 3, Day = 4\<rparr>\<rparr>"

definition exClient :: bqClient where
  "exClient = \<lparr>clientProject = ''mlab-sandbox''\<rparr>"

definition exNdt5 :: queryer where
  "exNdt5 = \<lparr>client = Some exClient, Project = ''mlab-sandbox'', Date = ''log_time'',
     Job = exJob ''ndt5'', PartitionKeys = [(''test_id'', ''test_id'')], OrderKeys = []\<rparr>"

definition exNdt7 :: queryer where
  "exNdt7 = \<lparr>client = Some exClient, Project = ''mlab-sandbox'', Date = ''date'',
     Job = exJob ''ndt7'', PartitionKeys = [(''id'', ''id'')], OrderKeys = []\<rparr>"

definition exAnnotation :: queryer where
  "exAnnotation = \<lparr>client = Some exClient, Project = ''mlab-sandbox'', Date = ''date'',
     Job = exJob ''annotation'', PartitionKeys = [(''id'', ''id'')], OrderKeys = []\<rparr>"

definition exTmp :: TableRef where
  "exTmp = \<lparr>ProjectID = ''mlab-sandbox'', DatasetID = ''tmp_r&d'', TableID = ''ndt7$20190304''\<rparr>"

definition exTmpNextDay :: TableRef where
  "exTmpNextDay = \<lparr>ProjectID = ''mlab-sandbox'', DatasetID = ''tmp_r&d'', TableID = ''ndt7$20190305''\<rparr>"

definition exRaw :: TableRef where
  "exRaw = \<lparr>ProjectID = ''mlab-sandbox'', DatasetID = ''raw_r&d'', TableID = ''ndt7$20190304''\<rparr>"

definition exWarehouse :: warehouse where
  "exWarehouse = [exTmp \<mapsto> [''new row''], exTmpNextDay \<mapsto> [''other row''], exRaw \<mapsto> [''old row'']]"

definition exNewClient :: "string \<Rightarrow> error + bqClient" where
  "exNewClient project = Inr \<lparr>clientProject = project\<rparr>"

definition exSrc :: TableRef where
  "exSrc = \<lparr>ProjectID = ''mlab-staging'', DatasetID = ''batch'', TableID = ''traceroute_20130524''\<rparr>"

definition exDest :: TableRef where
  "exDest = \<lparr>ProjectID = ''mlab-staging'', DatasetID = ''batch'', TableID = ''traceroute$20130524''\<rparr>"

definition exProvider :: provider where
  "exProvider = \<lparr>metadataOf = (\<lambda>t. NotFound), detailOf = (\<lambda>t. NotFound)\<rparr>"

section \<open>Lemmas about escaping, formatting and execution\<close>

lemma htmlEscaper_Nil: "htmlEscaper [] = []"
  by (simp add: htmlEscaper_def)

lemma htmlEscaper_Cons: "htmlEscaper (c # s) = htmlReplacementTable c @ htmlEscaper s"
  by (simp add: htmlEscaper_def)

lemma htmlEscaper_append: "htmlEscaper (s @ t) = htmlEscaper s @ htmlEscaper t"
  by (simp add: htmlEscaper_def)

lemma htmlEscaper_safe: "htmlSafe s \<Longrightarrow> htmlEscaper s = s"
  by (induction s) (simp_all add: htmlSafe_def htmlEscaper_Nil htmlEscaper_Cons)

lemma digitChar_safe: "htmlReplacementTable (digitChar d) = [digitChar d]"
proof -
  have "d mod 10 = 0 \<or> d mod 10 = 1 \<or> d mod 10 = 2 \<or> d mod 10 = 3 \<or> d mod 10 = 4
      \<or> d mod 10 = 5 \<or> d mod 10 = 6 \<or> d mod 10 = 7 \<or> d mod 10 = 8 \<or> d mod 10 = 9"
    by arith
  then show ?thesis
    unfolding digitChar_def htmlReplacementTable_def
    by (elim disjE) simp_all
qed

lemma utoa_safe: "htmlSafe (utoa n)"
proof (induction n rule: utoa.induct)
  case (1 n)
  show ?case
  proof (cases "n < 10")
    case True
    then show ?thesis
      by (subst utoa.simps) (simp add: htmlSafe_def digitChar_safe)
  next
    case False
    with 1 show ?thesis
      by (subst utoa.simps) (simp add: htmlSafe_def digitChar_safe)
  qed
qed

lemma htmlSafe_append: "htmlSafe (s @ t) = (htmlSafe s \<and> htmlSafe t)"
  by (simp add: htmlSafe_def)

lemma htmlSafe_replicate_zero: "htmlSafe (replicate n (CHR ''0''))"
  by (induction n) (simp_all add: htmlSafe_def htmlReplacementTable_def)

lemma htmlSafe_minus: "htmlSafe ''-''"
  by (simp add: htmlSafe_def htmlReplacementTable_def)

lemma htmlSafe_Nil: "htmlSafe []"
  by (simp add: htmlSafe_def)

lemma appendInt_safe: "htmlSafe (appendInt x w)"
  by (simp add: appendInt_def Let_def htmlSafe_append utoa_safe htmlSafe_replicate_zero
      htmlSafe_minus htmlSafe_Nil)

lemma htmlSafe_Cons: "htmlSafe (c # s) = (htmlReplacementTable c = [c] \<and> htmlSafe s)"
  by (simp add: htmlSafe_def)

lemma htmlReplacementTable_minus: "htmlReplacementTable (CHR ''-'') = ''-''"
  by (simp add: htmlReplacementTable_def)

lemma Format_dashed_safe: "htmlSafe (Format t layout_2006_01_02)"
  by (simp add: Format_def layout_2006_01_02_def htmlSafe_append htmlSafe_Cons appendInt_safe
      htmlReplacementTable_minus)

lemma htmlEscaper_Format: "htmlEscaper (Format t layout_2006_01_02) = Format t layout_2006_01_02"
  by (rule htmlEscaper_safe [OF Format_dashed_safe])

lemma execute_append: "execute (xs @ ys) q = execute xs q @ execute ys q"
  by (simp add: execute_def)

lemma execute_Cons: "execute (n # ns) q = evalNode q n @ execute ns q"
  by (simp add: execute_def)

lemma execute_Nil: "execute [] q = []"
  by (simp add: execute_def)

lemma rangeMap_cong:
  assumes "map_of m = map_of m'"
  shows "rangeMap m = rangeMap m'"
proof -
  have "set (map fst m) = dom (map_of m)" by (simp add: dom_map_of_conv_image_fst)
  also have "\<dots> = dom (map_of m')" using assms by simp
  also have "\<dots> = set (map fst m')" by (simp add: dom_map_of_conv_image_fst)
  finally have "set (map fst m) = set (map fst m')" .
  then have "sorted_list_of_set (set (map fst m)) = sorted_list_of_set (set (map fst m'))"
    by simp
  then have "sort (remdups (map fst m)) = sort (remdups (map fst m'))"
    by (simp only: sorted_list_of_set_sort_remdups)
  with assms show ?thesis by (simp add: rangeMap_def)
qed

lemma evalNode_cong:
  assumes "Project q = Project q'" "Date q = Date q'" "Job q = Job q'"
    "OrderKeys q = OrderKeys q'" "map_of (PartitionKeys q) = map_of (PartitionKeys q')"
  shows "evalNode q n = evalNode q' n"
  using assms by (cases n) (simp_all add: rangeMap_cong [of "PartitionKeys q" "PartitionKeys q'"])

lemma makeQuery_cong:
  assumes "Project q = Project q'" "Date q = Date q'" "Job q = Job q'"
    "OrderKeys q = OrderKeys q'" "map_of (PartitionKeys q) = map_of (PartitionKeys q')"
  shows "makeQuery t q = makeQuery t q'"
proof -
  have "evalNode q = evalNode q'"
    by (rule ext) (rule evalNode_cong [OF assms])
  then show ?thesis by (simp add: makeQuery_def execute_def)
qed

lemmas render_defs = DedupQuery_def makeQuery_def execute_def dedupTemplate_def cleanupTemplate_def
  tmpTable_def

lemmas example_defs = exJob_def exClient_def exNdt5_def exNdt7_def exAnnotation_def exTmp_def
  exTmpNextDay_def exRaw_def exWarehouse_def exNewClient_def exProvider_def exSrc_def exDest_def

lemma Format_20190304_dashed:
  "Format \<lparr>Year = 2019, Month = 3, Day = 4\<rparr> layout_2006_01_02 = ''2019-03-04''"
  by code_simp

lemma Format_20190304_dense:
  "Format \<lparr>Year = 2019, Month = 3, Day = 4\<rparr> layout_20060102 = ''20190304''"
  by code_simp

lemma QueryFor_cleanup: "QueryFor ''cleanup'' q = makeQuery cleanupTemplate q"
  by (simp add: QueryFor_def queryTemplates_def)

lemma exNdt7_tmp:
  "Table exClient (''tmp_'' @ Experiment (Job exNdt7))
     (Datatype (Job exNdt7) @ ''$'' @ Format (Job.Date (Job exNdt7)) layout_20060102) = exTmp"
  by (simp add: Table_def example_defs Format_20190304_dense)

lemma exNdt7_raw:
  "Table exClient (''raw_'' @ Experiment (Job exNdt7))
     (Datatype (Job exNdt7) @ ''$'' @ Format (Job.Date (Job exNdt7)) layout_20060102) = exRaw"
  by (simp add: Table_def example_defs Format_20190304_dense)

lemma exTables_distinct: "exTmp \<noteq> exTmpNextDay" "exTmp \<noteq> exRaw" "exTmpNextDay \<noteq> exRaw"
  by (simp_all add: example_defs)

lemma sublist_skip_append: "sublist xs ys \<Longrightarrow> sublist xs (zs @ ys) = True"
  by (simp add: sublist_append)

lemma rangeMap_single: "rangeMap [(k, v)] = [(k, v)]"
  by (simp add: rangeMap_def List.map_filter_simps)

lemma htmlSafe_policy_names:
  "htmlSafe ''date''" "htmlSafe ''log_time''" "htmlSafe ''id''" "htmlSafe ''test_id''"
  "htmlSafe ''annotation''" "htmlSafe ''ndt5''" "htmlSafe ''ndt7''"
  by (simp_all add: htmlSafe_def htmlReplacementTable_def)

lemmas htmlEscaper_policy_names = htmlSafe_policy_names [THEN htmlEscaper_safe]

lemma NewQuerierWithClient_cases:
  assumes "NewQuerierWithClient cl job project = Inr q"
  obtains
    (annotation) "Datatype job = ''annotation''"
      "q = \<lparr>client = cl, Project = project, Date = ''date'', Job = job,
            PartitionKeys = [(''id'', ''id'')], OrderKeys = []\<rparr>"
  | (ndt5) "Datatype job = ''ndt5''"
      "q = \<lparr>client = cl, Project = project, Date = ''log_time'', Job = job,
            PartitionKeys = [(''test_id'', ''test_id'')], OrderKeys = []\<rparr>"
  | (ndt7) "Datatype job = ''ndt7''"
      "q = \<lparr>client = cl, Project = project, Date = ''date'', Job = job,
            PartitionKeys = [(''id'', ''id'')], OrderKeys = []\<rparr>"
  using assms by (auto simp: NewQuerierWithClient_def split: if_splits)

lemma window_clause_general:
  \<open>sublist (''ROW_NUMBER() OVER (\<newline>''
       @ ''        PARTITION BY ''
       @ concat (map (\<lambda>(k, v). htmlEscaper v @ '', '') (rangeMap (PartitionKeys q)))
       @ ''date\<newline>''
       @ ''        ORDER BY '' @ htmlEscaper (OrderKeys q) @ '' parser.Time DESC\<newline>''
       @ ''      ) row_number'') (DedupQuery q)\<close>
  by (simp add: render_defs sublist_Cons_right sublist_skip_append case_prod_beta)

lemma where_clause_general:
  \<open>sublist (''WHERE '' @ htmlEscaper (queryer.Date q) @ '' = "''
       @ Format (Job.Date (Job q)) layout_2006_01_02 @ ''"\<newline>'') (DedupQuery q)\<close>
  by (simp add: render_defs sublist_Cons_right sublist_skip_append htmlEscaper_Format)

lemma exNdt5_constructed:
  "NewQuerierWithClient (Some exClient) (exJob ''ndt5'') ''mlab-sandbox'' = Inr exNdt5"
  by (simp add: NewQuerierWithClient_def exNdt5_def exJob_def)

lemma exAnnotation_constructed:
  "NewQuerierWithClient (Some exClient) (exJob ''annotation'') ''mlab-sandbox'' = Inr exAnnotation"
  by (simp add: NewQuerierWithClient_def exAnnotation_def exJob_def)

lemma dedup_text_exNdt5:
  \<open>DedupQuery exNdt5 =
      ''\<newline>''
      @ ''#standardSQL\<newline>''
      @ ''# Delete all duplicate rows based on key and prefered priority ordering.\<newline>''
      @ ''# This is resource intensive for tcpinfo - 20 slot hours for 12M rows with 250M snapshots,\<newline>''
      @ ''# roughly proportional to the memory footprint of the table partition.\<newline>''
      @ ''# The query is very cheap if there are no duplicates.\<newline>''
      @ ''DELETE\<newline>''
      @ ''FROM `'' @ ''mlab-sandbox'' @ ''.tmp_'' @ ''r&amp;d'' @ ''.'' @ ''ndt5'' @ ''` AS target\<newline>''
      @ ''WHERE '' @ ''log_time'' @ '' = "'' @ ''2019-03-04'' @ ''"\<newline>''
      @ ''# This identifies all rows that don't match rows to preserve.\<newline>''
      @ ''AND NOT EXISTS (\<newline>''
      @ ''  # This creates list of rows to preserve, based on key and priority.\<newline>''
      @ ''  WITH keep AS (\<newline>''
      @ ''  SELECT * EXCEPT(row_number) FROM (\<newline>''
      @ ''    SELECT\<newline>''
      @ ''      '' @ ''test_id'' @ '', '' @ ''\<newline>''
      @ [CHR 0x09] @ ''  parser.Time,\<newline>''
      @ ''      ROW_NUMBER() OVER (\<newline>''
      @ ''        PARTITION BY '' @ ''test_id'' @ '', '' @ ''date\<newline>''
      @ ''        ORDER BY '' @ '''' @ '' parser.Time DESC\<newline>''
      @ ''      ) row_number\<newline>''
      @ ''      FROM (\<newline>''
      @ ''        SELECT * FROM `'' @ ''mlab-sandbox'' @ ''.tmp_'' @ ''r&amp;d'' @ ''.'' @ ''ndt5'' @ ''`\<newline>''
      @ ''        WHERE '' @ ''log_time'' @ '' = "'' @ ''2019-03-04'' @ ''"\<newline>''
      @ ''      )\<newline>''
      @ ''    )\<newline>''
      @ ''    WHERE row_number = 1\<newline>''
      @ ''  )\<newline>''
      @ ''  SELECT * FROM keep\<newline>''
      @ ''  # This matches against the keep table based on keys.  Sufficient select keys must be\<newline>''
      @ ''  # used to distinguish the preferred row from the others.\<newline>''
      @ ''  WHERE\<newline>''
      @ ''    '' @ ''target.'' @ ''test_id'' @ '' = keep.'' @ ''test_id'' @ '' AND '' @ ''\<newline>''
      @ ''    target.parser.Time = keep.Time\<newline>''
      @ '')''\<close>
  by (simp add: exNdt5_def exJob_def render_defs rangeMap_single htmlEscaper_def
      htmlReplacementTable_def Format_20190304_dashed)

section \<open>The claims\<close>

subsection \<open>Partition names\<close>

text \<open>
  Claim C2.  The partition-name parser maps \<open>table$20160102\<close> to the parts with prefix
  \<open>table\<close>, partitioned, date \<open>20160102\<close>; it maps \<open>table_20160102\<close> to the same
  prefix and date, not partitioned; and it fails with \<open>InvalidPartitionName\<close> on a
  partition of 7 digits, on one of 9 digits and on the month 21.  The parser is a function
  of the name alone.
\<close>

theorem getTableParts_examples:
  "getTableParts ''table$20160102''
     = Inr \<lparr>prefix' = ''table'', isPartitioned = True, yyyymmdd = ''20160102''\<rparr>
   \<and> getTableParts ''table_20160102''
     = Inr \<lparr>prefix' = ''table'', isPartitioned = False, yyyymmdd = ''20160102''\<rparr>
   \<and> getTableParts ''table$2016010'' = Inl InvalidPartitionName
   \<and> getTableParts ''table$201601022'' = Inl InvalidPartitionName
   \<and> getTableParts ''table$20162102'' = Inl InvalidPartitionName"
  by code_simp

subsection \<open>Construction of a query builder\<close>

text \<open>
  Claim C3.  For every datatype outside annotation, ndt5 and ndt7 the constructor returns
  \<open>ErrDatatypeNotSupported\<close> and no builder, so there is nothing to render a query from.
\<close>

theorem unsupported_datatype_rejected:
  "Datatype job \<notin> {''annotation'', ''ndt5'', ''ndt7''} \<Longrightarrow>
   NewQuerierWithClient cl job project = Inl ErrDatatypeNotSupported"
  by (simp add: NewQuerierWithClient_def)

theorem unsupported_datatype_rejected_witness:
  "Datatype \<lparr>Bucket = ''bucket'', Experiment = ''ndt'', Datatype = ''tcpinfo'',
              Job.Date = \<lparr>Year = 2019, Month = 3, Day = 4\<rparr>\<rparr>
     \<notin> {''annotation'', ''ndt5'', ''ndt7''}
   \<and> NewQuerierWithClient (Some \<lparr>clientProject = ''mlab-sandbox''\<rparr>)
        \<lparr>Bucket = ''bucket'', Experiment = ''ndt'', Datatype = ''tcpinfo'',
         Job.Date = \<lparr>Year = 2019, Month = 3, Day = 4\<rparr>\<rparr> ''mlab-sandbox''
       = Inl ErrDatatypeNotSupported"
  using unsupported_datatype_rejected
    [of "\<lparr>Bucket = ''bucket'', Experiment = ''ndt'', Datatype = ''tcpinfo'',
          Job.Date = \<lparr>Year = 2019, Month = 3, Day = 4\<rparr>\<rparr>"
        "Some \<lparr>clientProject = ''mlab-sandbox''\<rparr>" "''mlab-sandbox''"]
  by simp

text \<open>
  Claim C5.  The policy table: annotation and ndt7 have the single partition key
  \<open>id \<mapsto> id\<close> and an empty order; ndt5 has the single partition key
  \<open>test_id \<mapsto> test_id\<close> and an empty order.
\<close>

theorem policy_table:
  "NewQuerierWithClient cl (job\<lparr>Datatype := ''annotation''\<rparr>) project
     = Inr \<lparr>client = cl, Project = project, Date = ''date'', Job = job\<lparr>Datatype := ''annotation''\<rparr>,
            PartitionKeys = [(''id'', ''id'')], OrderKeys = []\<rparr>
   \<and> NewQuerierWithClient cl (job\<lparr>Datatype := ''ndt7''\<rparr>) project
     = Inr \<lparr>client = cl, Project = project, Date = ''date'', Job = job\<lparr>Datatype := ''ndt7''\<rparr>,
            PartitionKeys = [(''id'', ''id'')], OrderKeys = []\<rparr>
   \<and> NewQuerierWithClient cl (job\<lparr>Datatype := ''ndt5''\<rparr>) project
     = Inr \<lparr>client = cl, Project = project, Date = ''log_time'', Job = job\<lparr>Datatype := ''ndt5''\<rparr>,
            PartitionKeys = [(''test_id'', ''test_id'')], OrderKeys = []\<rparr>"
  by (simp add: NewQuerierWithClient_def)

subsection \<open>Rendering\<close>

text \<open>
  Claim C4.  Rendering depends on the project, the job, the date column, the order keys
  and the partition keys as a map only: two builders that agree on these render the same
  dedup and cleanup text, whatever their clients are and in whatever order the entries of
  the partition-key map are enumerated.
\<close>

theorem rendering_deterministic:
  assumes "Project q = Project q'" and "Date q = Date q'" and "Job q = Job q'"
    and "OrderKeys q = OrderKeys q'"
    and "map_of (PartitionKeys q) = map_of (PartitionKeys q')"
  shows "DedupQuery q = DedupQuery q' \<and> QueryFor ''cleanup'' q = QueryFor ''cleanup'' q'
    \<and> QueryFor ''dedup'' q = QueryFor ''dedup'' q'"
  using makeQuery_cong [OF assms]
  by (simp add: DedupQuery_def QueryFor_def queryTemplates_def)

theorem rendering_deterministic_witness:
  "DedupQuery
     \<lparr>client = None, Project = ''mlab-sandbox'', Date = ''DATE(TestTime)'',
       Job = \<lparr>Bucket = ''bucket'', Experiment = ''ndt'', Datatype = ''tcpinfo'',
              Job.Date = \<lparr>Year = 2019, Month = 3, Day = 4\<rparr>\<rparr>,
       PartitionKeys = [(''uuid'', ''uuid''), (''Timestamp'', ''FinalSnapshot.Timestamp'')],
       OrderKeys = ''ARRAY_LENGTH(Snapshots) DESC, ParseInfo.TaskFileName, ''\<rparr>
   = DedupQuery
     \<lparr>client = Some \<lparr>clientProject = ''mlab-sandbox''\<rparr>, Project = ''mlab-sandbox'',
       Date = ''DATE(TestTime)'',
       Job = \<lparr>Bucket = ''bucket'', Experiment = ''ndt'', Datatype = ''tcpinfo'',
              Job.Date = \<lparr>Year = 2019, Month = 3, Day = 4\<rparr>\<rparr>,
       PartitionKeys = [(''Timestamp'', ''FinalSnapshot.Timestamp''), (''uuid'', ''uuid'')],
       OrderKeys = ''ARRAY_LENGTH(Snapshots) DESC, ParseInfo.TaskFileName, ''\<rparr>"
proof -
  have m: "map_of [(''uuid'', ''uuid''), (''Timestamp'', ''FinalSnapshot.Timestamp'')]
      = map_of [(''Timestamp'', ''FinalSnapshot.Timestamp''), (''uuid'', ''uuid'')]"
    by (auto simp: fun_eq_iff)
  show ?thesis
    using rendering_deterministic
      [of "\<lparr>client = None, Project = ''mlab-sandbox'', Date = ''DATE(TestTime)'',
       Job = \<lparr>Bucket = ''bucket'', Experiment = ''ndt'', Datatype = ''tcpinfo'',
              Job.Date = \<lparr>Year = 2019, Month = 3, Day = 4\<rparr>\<rparr>,
       PartitionKeys = [(''uuid'', ''uuid''), (''Timestamp'', ''FinalSnapshot.Timestamp'')],
       OrderKeys = ''ARRAY_LENGTH(Snapshots) DESC, ParseInfo.TaskFileName, ''\<rparr>"
       "\<lparr>client = Some \<lparr>clientProject = ''mlab-sandbox''\<rparr>, Project = ''mlab-sandbox'',
       Date = ''DATE(TestTime)'',
       Job = \<lparr>Bucket = ''bucket'', Experiment = ''ndt'', Datatype = ''tcpinfo'',
              Job.Date = \<lparr>Year = 2019, Month = 3, Day = 4\<rparr>\<rparr>,
       PartitionKeys = [(''Timestamp'', ''FinalSnapshot.Timestamp''), (''uuid'', ''uuid'')],
       OrderKeys = ''ARRAY_LENGTH(Snapshots) DESC, ParseInfo.TaskFileName, ''\<rparr>"] m
    by simp
qed

text \<open>
  Claim C8, as amended.  Rendering a template never yields the empty string, for any
  builder and whatever the number of its partition keys: \<open>DedupQuery\<close> and \<open>QueryFor\<close>
  at the keys \<open>dedup\<close> and \<open>cleanup\<close> are non-empty.  \<open>QueryFor\<close> returns the empty
  string exactly when its key names no template, and an empty result arises from no other
  input.
\<close>

theorem rendering_empty_iff_unknown_key:
  "DedupQuery q \<noteq> [] \<and> QueryFor ''dedup'' q \<noteq> [] \<and> QueryFor ''cleanup'' q \<noteq> []
   \<and> (QueryFor key q = [] \<longleftrightarrow> key \<noteq> ''dedup'' \<and> key \<noteq> ''cleanup'')"
proof -
  have d: "makeQuery dedupTemplate q \<noteq> []"
    by (simp add: makeQuery_def execute_def dedupTemplate_def)
  have c: "makeQuery cleanupTemplate q \<noteq> []"
    by (simp add: makeQuery_def execute_def cleanupTemplate_def)
  show ?thesis
    using d c by (auto simp: DedupQuery_def QueryFor_def queryTemplates_def)
qed

text \<open>
  The claim as stated lets an empty rendering arise only from a policy without partition
  keys.  The builder the constructor makes for an ndt7 job has one partition key, and
  \<open>QueryFor\<close> at the key \<open>restore\<close>, which names no template, returns the empty
  string for it.
\<close>

theorem rendering_empty_counterexample:
  "NewQuerierWithClient (Some exClient) (exJob ''ndt7'') ''mlab-sandbox'' = Inr exNdt7
   \<and> PartitionKeys exNdt7 = [(''id'', ''id'')]
   \<and> QueryFor ''restore'' exNdt7 = []"
  by (simp add: NewQuerierWithClient_def exNdt7_def exJob_def QueryFor_def queryTemplates_def)

subsection \<open>Cleanup\<close>

text \<open>
  The cleanup query and \<open>DeleteTmp\<close> of every builder.  The query is an unconditional
  DELETE from the tmp table, restricted to the rows whose date column equals the job's
  date; the names in it are written by the text escaper.  \<open>DeleteTmp\<close> deletes exactly
  the partition \<open>tmp_<experiment>.<datatype>$YYYYMMDD\<close> of the job's date, with the
  names as they are, and leaves every other table and partition as it was.
\<close>

theorem cleanup_query_and_DeleteTmp:
  \<open>QueryFor ''cleanup'' q =
      ''\<newline>''
      @ ''#standardSQL\<newline>''
      @ ''# Delete all rows in a partition.\<newline>''
      @ ''DELETE\<newline>''
      @ ''FROM `'' @ htmlEscaper (Project q) @ ''.tmp_'' @ htmlEscaper (Experiment (Job q)) @ ''.'' @ htmlEscaper (Datatype (Job q)) @ ''`\<newline>''
      @ ''WHERE '' @ htmlEscaper (queryer.Date q) @ '' = "'' @ Format (Job.Date (Job q)) layout_2006_01_02 @ ''"\<newline>''
   \<and> (client q = Some c \<longrightarrow>
       (\<forall>t. t \<noteq> Table c (''tmp_'' @ Experiment (Job q))
                    (Datatype (Job q) @ ''$'' @ Format (Job.Date (Job q)) layout_20060102)
          \<longrightarrow> snd (DeleteTmp q w) t = w t)
       \<and> (w (Table c (''tmp_'' @ Experiment (Job q))
                    (Datatype (Job q) @ ''$'' @ Format (Job.Date (Job q)) layout_20060102)) \<noteq> None
          \<longrightarrow> fst (DeleteTmp q w) = None
            \<and> snd (DeleteTmp q w) (Table c (''tmp_'' @ Experiment (Job q))
                    (Datatype (Job q) @ ''$'' @ Format (Job.Date (Job q)) layout_20060102)) = None))\<close>
proof (intro conjI impI allI)
  show \<open>QueryFor ''cleanup'' q =
      ''\<newline>''
      @ ''#standardSQL\<newline>''
      @ ''# Delete all rows in a partition.\<newline>''
      @ ''DELETE\<newline>''
      @ ''FROM `'' @ htmlEscaper (Project q) @ ''.tmp_'' @ htmlEscaper (Experiment (Job q)) @ ''.'' @ htmlEscaper (Datatype (Job q)) @ ''`\<newline>''
      @ ''WHERE '' @ htmlEscaper (queryer.Date q) @ '' = "'' @ Format (Job.Date (Job q)) layout_2006_01_02 @ ''"\<newline>''\<close>
    by (simp add: QueryFor_cleanup render_defs htmlEscaper_Format)
next
  fix t
  assume "client q = Some c"
    and "t \<noteq> Table c (''tmp_'' @ Experiment (Job q))
                    (Datatype (Job q) @ ''$'' @ Format (Job.Date (Job q)) layout_20060102)"
  then show "snd (DeleteTmp q w) t = w t"
    by (simp add: DeleteTmp_def tableDelete_def split: option.splits)
next
  assume "client q = Some c"
    and "w (Table c (''tmp_'' @ Experiment (Job q))
                    (Datatype (Job q) @ ''$'' @ Format (Job.Date (Job q)) layout_20060102)) \<noteq> None"
  then show "fst (DeleteTmp q w) = None"
    by (auto simp: DeleteTmp_def tableDelete_def split: option.splits)
next
  assume "client q = Some c"
    and "w (Table c (''tmp_'' @ Experiment (Job q))
                    (Datatype (Job q) @ ''$'' @ Format (Job.Date (Job q)) layout_20060102)) \<noteq> None"
  then show "snd (DeleteTmp q w) (Table c (''tmp_'' @ Experiment (Job q))
                    (Datatype (Job q) @ ''$'' @ Format (Job.Date (Job q)) layout_20060102)) = None"
    by (auto simp: DeleteTmp_def tableDelete_def split: option.splits)
qed

theorem cleanup_query_and_DeleteTmp_witness:
  "client exNdt7 = Some exClient
   \<and> exTmpNextDay \<noteq> exTmp \<and> exWarehouse exTmp \<noteq> None
   \<and> fst (DeleteTmp exNdt7 exWarehouse) = None
   \<and> snd (DeleteTmp exNdt7 exWarehouse) exTmp = None
   \<and> snd (DeleteTmp exNdt7 exWarehouse) exTmpNextDay = exWarehouse exTmpNextDay"
proof -
  have c: "client exNdt7 = Some exClient" by (simp add: exNdt7_def)
  have d: "exTmpNextDay \<noteq> exTmp" using exTables_distinct by simp
  have p: "exWarehouse exTmp \<noteq> None" using exTables_distinct by (simp add: exWarehouse_def)
  note T = cleanup_query_and_DeleteTmp [of exNdt7 exClient exWarehouse, unfolded exNdt7_tmp]
  from T [THEN conjunct2] c d p show ?thesis by blast
qed

text \<open>
  Claim C6.  The cleanup query is to delete from \<open>tmp_<experiment>.<datatype>\<close>, the
  table whose partition \<open>DeleteTmp\<close> deletes.  For the ndt7 job of the experiment
  \<open>r&d\<close> the rendered query names \<open>tmp_r&amp;d.ndt7\<close> and nowhere
  \<open>tmp_r&d.ndt7\<close>, while \<open>DeleteTmp\<close> of the same builder addresses the dataset
  \<open>tmp_r&d\<close>.
\<close>

theorem cleanup_query_failing_input:
  \<open>QueryFor ''cleanup'' exNdt7 =
      ''\<newline>''
      @ ''#standardSQL\<newline>''
      @ ''# Delete all rows in a partition.\<newline>''
      @ ''DELETE\<newline>''
      @ ''FROM `'' @ ''mlab-sandbox'' @ ''.tmp_'' @ ''r&amp;d'' @ ''.'' @ ''ndt7'' @ ''`\<newline>''
      @ ''WHERE '' @ ''date'' @ '' = "'' @ ''2019-03-04'' @ ''"\<newline>''
   \<and> \<not> sublist ''tmp_r&d.ndt7'' (QueryFor ''cleanup'' exNdt7)
   \<and> DatasetID (Table exClient (''tmp_'' @ Experiment (Job exNdt7))
        (Datatype (Job exNdt7) @ ''$'' @ Format (Job.Date (Job exNdt7)) layout_20060102)) = ''tmp_r&d''\<close>
  by (simp add: QueryFor_cleanup render_defs htmlEscaper_def htmlReplacementTable_def
      Format_20190304_dashed exNdt7_tmp sublist_Cons_right)
     (simp add: example_defs htmlEscaper_def htmlReplacementTable_def
      Format_20190304_dashed sublist_Cons_right Table_def)

subsection \<open>Copy to the raw table\<close>

text \<open>
  Claim C7.  When \<open>CopyToRaw\<close> runs the copy (no dry run, a client is present, its own
  client could be created) it copies the partition
  \<open>tmp_<experiment>.<datatype>$YYYYMMDD\<close> to the partition
  \<open>raw_<experiment>.<datatype>$YYYYMMDD\<close> of the same date with the write disposition
  \<open>WriteTruncate\<close>: afterwards the destination holds the rows of the source and none
  of its former rows.
\<close>

theorem CopyToRaw_overwrites:
  assumes "client q = Some pc" and "newClient (clientProject pc) = Inr c"
    and "w (Table c (''tmp_'' @ Experiment (Job q))
              (Datatype (Job q) @ ''$'' @ Format (Job.Date (Job q)) layout_20060102)) = Some rows"
  shows "CopyToRaw newClient q False w =
     (Inr \<lparr>Srcs = [Table c (''tmp_'' @ Experiment (Job q))
                      (Datatype (Job q) @ ''$'' @ Format (Job.Date (Job q)) layout_20060102)],
            Dst = Table c (''raw_'' @ Experiment (Job q))
                      (Datatype (Job q) @ ''$'' @ Format (Job.Date (Job q)) layout_20060102),
            WriteDisposition = WriteTruncate\<rparr>,
      w(Table c (''raw_'' @ Experiment (Job q))
          (Datatype (Job q) @ ''$'' @ Format (Job.Date (Job q)) layout_20060102) \<mapsto> rows))"
  using assms by (simp add: CopyToRaw_def copierRun_def Let_def)

theorem CopyToRaw_overwrites_witness:
  "client exNdt7 = Some exClient \<and> exNewClient (clientProject exClient) = Inr exClient
   \<and> exWarehouse exTmp = Some [''new row''] \<and> exWarehouse exRaw = Some [''old row'']
   \<and> CopyToRaw exNewClient exNdt7 False exWarehouse =
       (Inr \<lparr>Srcs = [exTmp], Dst = exRaw, WriteDisposition = WriteTruncate\<rparr>,
        exWarehouse(exRaw \<mapsto> [''new row'']))"
proof -
  have c: "client exNdt7 = Some exClient" by (simp add: exNdt7_def)
  have n: "exNewClient (clientProject exClient) = Inr exClient"
    by (simp add: exNewClient_def exClient_def)
  have s: "exWarehouse exTmp = Some [''new row'']"
    using exTables_distinct by (simp add: exWarehouse_def)
  have r: "exWarehouse exRaw = Some [''old row'']"
    using exTables_distinct by (simp add: exWarehouse_def)
  note T = CopyToRaw_overwrites [of exNdt7 exClient exNewClient exClient exWarehouse "[''new row'']",
      unfolded exNdt7_tmp exNdt7_raw]
  from T [OF c n s] c n s r show ?thesis by simp
qed

subsection \<open>Sanity check of an empty source\<close>

lemma getTableParts_exSrc:
  "getTableParts (TableID exSrc)
     = Inr \<lparr>prefix' = ''traceroute'', isPartitioned = False, yyyymmdd = ''20130524''\<rparr>"
  unfolding exSrc_def by code_simp

lemma getTableParts_exDest:
  "getTableParts (TableID exDest)
     = Inr \<lparr>prefix' = ''traceroute'', isPartitioned = True, yyyymmdd = ''20130524''\<rparr>"
  unfolding exDest_def by code_simp

text \<open>
  Claim C9.  With well-formed table names and a destination whose metadata can be read, the
  sanity check of a source partition that is empty or does not exist returns the result
  "nothing to promote" without an error, and leaves the warehouse as it was: no copy and
  no other change.
\<close>

theorem SanityCheckAndCopy_empty_source:
  assumes "getTableParts (TableID src) = Inr srcParts"
    and "getTableParts (TableID dest) = Inr destParts"
    and "metadataOf prov dest \<noteq> FetchFailed"
    and "emptyPartition (metadataOf prov src)"
  shows "SanityCheckAndCopy prov src dest w = (Inr SkippedEmpty, w)"
proof -
  from assms(4) have "metadataOf prov src \<noteq> FetchFailed"
    by (auto simp: emptyPartition_def)
  with assms show ?thesis
    by (simp add: SanityCheckAndCopy_def Let_def)
qed

theorem SanityCheckAndCopy_empty_source_witness:
  "metadataOf exProvider exDest \<noteq> FetchFailed \<and> emptyPartition (metadataOf exProvider exSrc)
   \<and> SanityCheckAndCopy exProvider exSrc exDest exWarehouse = (Inr SkippedEmpty, exWarehouse)"
proof -
  have d: "metadataOf exProvider exDest \<noteq> FetchFailed" by (simp add: exProvider_def)
  have e: "emptyPartition (metadataOf exProvider exSrc)"
    by (simp add: exProvider_def emptyPartition_def)
  from SanityCheckAndCopy_empty_source [OF getTableParts_exSrc getTableParts_exDest d e] d e
  show ?thesis by simp
qed

subsection \<open>The dedup query\<close>

text \<open>
  Claim C10.  For every policy the window that selects the row to keep is
  \<open>ROW_NUMBER() OVER (PARTITION BY <keys>, date ORDER BY <order> parser.Time DESC)\<close>:
  the declared partition keys (as the templates write them, in sorted key order) followed
  by the literal column \<open>date\<close>, with the literal tie-break \<open>parser.Time DESC\<close>.
  The clause does not mention the policy's date column.  In particular the builder for
  ndt5 filters on \<open>log_time\<close> and its window is partitioned by \<open>test_id, date\<close>.
\<close>

theorem window_keys_then_date:
  \<open>sublist (''ROW_NUMBER() OVER (\<newline>''
       @ ''        PARTITION BY ''
       @ concat (map (\<lambda>(k, v). htmlEscaper v @ '', '') (rangeMap (PartitionKeys q)))
       @ ''date\<newline>''
       @ ''        ORDER BY '' @ htmlEscaper (OrderKeys q) @ '' parser.Time DESC\<newline>''
       @ ''      ) row_number'') (DedupQuery q)
   \<and> (NewQuerierWithClient cl job project = Inr q' \<and> Datatype job = ''ndt5'' \<longrightarrow>
        queryer.Date q' = ''log_time''
        \<and> sublist (''WHERE log_time = "'' @ Format (Job.Date job) layout_2006_01_02 @ ''"\<newline>'')
             (DedupQuery q')
        \<and> sublist (''ROW_NUMBER() OVER (\<newline>''
             @ ''        PARTITION BY test_id, date\<newline>''
             @ ''        ORDER BY  parser.Time DESC\<newline>''
             @ ''      ) row_number'') (DedupQuery q'))\<close>
proof (intro conjI impI)
  show \<open>sublist (''ROW_NUMBER() OVER (\<newline>''
       @ ''        PARTITION BY ''
       @ concat (map (\<lambda>(k, v). htmlEscaper v @ '', '') (rangeMap (PartitionKeys q)))
       @ ''date\<newline>''
       @ ''        ORDER BY '' @ htmlEscaper (OrderKeys q) @ '' parser.Time DESC\<newline>''
       @ ''      ) row_number'') (DedupQuery q)\<close>
    by (rule window_clause_general)
next
  assume a: "NewQuerierWithClient cl job project = Inr q' \<and> Datatype job = ''ndt5''"
  then have q': "q' = \<lparr>client = cl, Project = project, Date = ''log_time'', Job = job,
            PartitionKeys = [(''test_id'', ''test_id'')], OrderKeys = []\<rparr>"
    by (auto elim: NewQuerierWithClient_cases)
  show "queryer.Date q' = ''log_time''" by (simp add: q')
  show \<open>sublist (''WHERE log_time = "'' @ Format (Job.Date job) layout_2006_01_02 @ ''"\<newline>'')
             (DedupQuery q')\<close>
    using where_clause_general [of q'] by (simp add: q' htmlEscaper_policy_names)
  show \<open>sublist (''ROW_NUMBER() OVER (\<newline>''
             @ ''        PARTITION BY test_id, date\<newline>''
             @ ''        ORDER BY  parser.Time DESC\<newline>''
             @ ''      ) row_number'') (DedupQuery q')\<close>
    using window_clause_general [of q']
    by (simp add: q' rangeMap_single htmlEscaper_policy_names htmlEscaper_Nil)
qed

theorem window_keys_then_date_witness:
  \<open>NewQuerierWithClient (Some exClient) (exJob ''ndt5'') ''mlab-sandbox'' = Inr exNdt5
   \<and> Datatype (exJob ''ndt5'') = ''ndt5''
   \<and> queryer.Date exNdt5 = ''log_time''
   \<and> sublist (''WHERE log_time = "2019-03-04"\<newline>'') (DedupQuery exNdt5)
   \<and> sublist (''ROW_NUMBER() OVER (\<newline>''
             @ ''        PARTITION BY test_id, date\<newline>''
             @ ''        ORDER BY  parser.Time DESC\<newline>''
             @ ''      ) row_number'') (DedupQuery exNdt5)\<close>
proof -
  have d: "Datatype (exJob ''ndt5'') = ''ndt5''" by (simp add: exJob_def)
  have f: "Format (Job.Date (exJob ''ndt5'')) layout_2006_01_02 = ''2019-03-04''"
    by (simp add: exJob_def Format_20190304_dashed)
  note T = window_keys_then_date [of exNdt5 "Some exClient" "exJob ''ndt5''" "''mlab-sandbox''" exNdt5,
      THEN conjunct2, rule_format, OF conjI, OF exNdt5_constructed d, unfolded f]
  from T exNdt5_constructed d show ?thesis by simp
qed

text \<open>
  The rendered dedup query of every builder the constructor makes: the text of the
  template with the policy's date column, partition key and order, the job's date in the
  layout \<open>2006-01-02\<close>, and project and experiment as the text escaper writes them.
\<close>

theorem dedup_query_text:
  assumes "NewQuerierWithClient cl job project = Inr q"
  shows \<open>DedupQuery q =
      ''\<newline>''
      @ ''#standardSQL\<newline>''
      @ ''# Delete all duplicate rows based on key and prefered priority ordering.\<newline>''
      @ ''# This is resource intensive for tcpinfo - 20 slot hours for 12M rows with 250M snapshots,\<newline>''
      @ ''# roughly proportional to the memory footprint of the table partition.\<newline>''
      @ ''# The query is very cheap if there are no duplicates.\<newline>''
      @ ''DELETE\<newline>''
      @ ''FROM `'' @ htmlEscaper project @ ''.tmp_'' @ htmlEscaper (Experiment job) @ ''.'' @ Datatype job @ ''` AS target\<newline>''
      @ ''WHERE '' @ queryer.Date q @ '' = "'' @ Format (Job.Date job) layout_2006_01_02 @ ''"\<newline>''
      @ ''# This identifies all rows that don't match rows to preserve.\<newline>''
      @ ''AND NOT EXISTS (\<newline>''
      @ ''  # This creates list of rows to preserve, based on key and priority.\<newline>''
      @ ''  WITH keep AS (\<newline>''
      @ ''  SELECT * EXCEPT(row_number) FROM (\<newline>''
      @ ''    SELECT\<newline>''
      @ ''      '' @ concat (map (\<lambda>(k, v). v @ '', '') (PartitionKeys q)) @ ''\<newline>''
      @ [CHR 0x09] @ ''  parser.Time,\<newline>''
      @ ''      ROW_NUMBER() OVER (\<newline>''
      @ ''        PARTITION BY '' @ concat (map (\<lambda>(k, v). v @ '', '') (PartitionKeys q)) @ ''date\<newline>''
      @ ''        ORDER BY '' @ OrderKeys q @ '' parser.Time DESC\<newline>''
      @ ''      ) row_number\<newline>''
      @ ''      FROM (\<newline>''
      @ ''        SELECT * FROM `'' @ htmlEscaper project @ ''.tmp_'' @ htmlEscaper (Experiment job) @ ''.'' @ Datatype job @ ''`\<newline>''
      @ ''        WHERE '' @ queryer.Date q @ '' = "'' @ Format (Job.Date job) layout_2006_01_02 @ ''"\<newline>''
      @ ''      )\<newline>''
      @ ''    )\<newline>''
      @ ''    WHERE row_number = 1\<newline>''
      @ ''  )\<newline>''
      @ ''  SELECT * FROM keep\<newline>''
      @ ''  # This matches against the keep table based on keys.  Sufficient select keys must be\<newline>''
      @ ''  # used to distinguish the preferred row from the others.\<newline>''
      @ ''  WHERE\<newline>''
      @ ''    '' @ concat (map (\<lambda>(k, v). ''target.'' @ v @ '' = keep.'' @ k @ '' AND '') (PartitionKeys q)) @ ''\<newline>''
      @ ''    target.parser.Time = keep.Time\<newline>''
      @ '')''\<close>
  using assms
proof (cases rule: NewQuerierWithClient_cases)
  case annotation
  then show ?thesis
    by (simp add: render_defs rangeMap_single htmlEscaper_policy_names htmlEscaper_Format
        htmlEscaper_Nil)
next
  case ndt5
  then show ?thesis
    by (simp add: render_defs rangeMap_single htmlEscaper_policy_names htmlEscaper_Format
        htmlEscaper_Nil)
next
  case ndt7
  then show ?thesis
    by (simp add: render_defs rangeMap_single htmlEscaper_policy_names htmlEscaper_Format
        htmlEscaper_Nil)
qed

text \<open>
  Claim C1.  The dedup query is to delete from \<open>tmp_<experiment>.<datatype>\<close>, with the
  rank assigned by \<open>ROW_NUMBER\<close> partitioned over the declared partition keys.  For
  the ndt5 job of the experiment \<open>r&d\<close> the rendered query names the table
  \<open>tmp_r&amp;d.ndt5\<close>, while the copy and delete operations of the same builder address
  the dataset \<open>tmp_r&d\<close>; and its window is partitioned by \<open>test_id, date\<close>, while
  the declared partition key is \<open>test_id\<close> alone and the rows are filtered on
  \<open>log_time\<close>.
\<close>

theorem dedup_query_failing_input:
  \<open>NewQuerierWithClient (Some exClient) (exJob ''ndt5'') ''mlab-sandbox'' = Inr exNdt5
   \<and> DedupQuery exNdt5 =
      ''\<newline>''
      @ ''#standardSQL\<newline>''
      @ ''# Delete all duplicate rows based on key and prefered priority ordering.\<newline>''
      @ ''# This is resource intensive for tcpinfo - 20 slot hours for 12M rows with 250M snapshots,\<newline>''
      @ ''# roughly proportional to the memory footprint of the table partition.\<newline>''
      @ ''# The query is very cheap if there are no duplicates.\<newline>''
      @ ''DELETE\<newline>''
      @ ''FROM `'' @ ''mlab-sandbox'' @ ''.tmp_'' @ ''r&amp;d'' @ ''.'' @ ''ndt5'' @ ''` AS target\<newline>''
      @ ''WHERE '' @ ''log_time'' @ '' = "'' @ ''2019-03-04'' @ ''"\<newline>''
      @ ''# This identifies all rows that don't match rows to preserve.\<newline>''
      @ ''AND NOT EXISTS (\<newline>''
      @ ''  # This creates list of rows to preserve, based on key and priority.\<newline>''
      @ ''  WITH keep AS (\<newline>''
      @ ''  SELECT * EXCEPT(row_number) FROM (\<newline>''
      @ ''    SELECT\<newline>''
      @ ''      '' @ ''test_id'' @ '', '' @ ''\<newline>''
      @ [CHR 0x09] @ ''  parser.Time,\<newline>''
      @ ''      ROW_NUMBER() OVER (\<newline>''
      @ ''        PARTITION BY '' @ ''test_id'' @ '', '' @ ''date\<newline>''
      @ ''        ORDER BY '' @ '''' @ '' parser.Time DESC\<newline>''
      @ ''      ) row_number\<newline>''
      @ ''      FROM (\<newline>''
      @ ''        SELECT * FROM `'' @ ''mlab-sandbox'' @ ''.tmp_'' @ ''r&amp;d'' @ ''.'' @ ''ndt5'' @ ''`\<newline>''
      @ ''        WHERE '' @ ''log_time'' @ '' = "'' @ ''2019-03-04'' @ ''"\<newline>''
      @ ''      )\<newline>''
      @ ''    )\<newline>''
      @ ''    WHERE row_number = 1\<newline>''
      @ ''  )\<newline>''
      @ ''  SELECT * FROM keep\<newline>''
      @ ''  # This matches against the keep table based on keys.  Sufficient select keys must be\<newline>''
      @ ''  # used to distinguish the preferred row from the others.\<newline>''
      @ ''  WHERE\<newline>''
      @ ''    '' @ ''target.'' @ ''test_id'' @ '' = keep.'' @ ''test_id'' @ '' AND '' @ ''\<newline>''
      @ ''    target.parser.Time = keep.Time\<newline>''
      @ '')''
   \<and> partitionByColumns (DedupQuery exNdt5) = [''test_id'', ''date'']
   \<and> map snd (PartitionKeys exNdt5) = [''test_id'']
   \<and> queryer.Date exNdt5 = ''log_time''
   \<and> DatasetID (Table exClient (''tmp_'' @ Experiment (Job exNdt5))
        (Datatype (Job exNdt5) @ ''$'' @ Format (Job.Date (Job exNdt5)) layout_20060102)) = ''tmp_r&d''\<close>
proof -
  have \<open>partitionByColumns (DedupQuery exNdt5) = [''test_id'', ''date'']\<close>
    unfolding dedup_text_exNdt5 by (simp add: partitionByColumns_def)
  moreover have "map snd (PartitionKeys exNdt5) = [''test_id'']"
    by (simp add: exNdt5_def)
  moreover have "queryer.Date exNdt5 = ''log_time''"
    by (simp add: exNdt5_def)
  moreover have "DatasetID (Table exClient (''tmp_'' @ Experiment (Job exNdt5))
        (Datatype (Job exNdt5) @ ''$'' @ Format (Job.Date (Job exNdt5)) layout_20060102)) = ''tmp_r&d''"
    by (simp add: Table_def exNdt5_def exJob_def)
  ultimately show ?thesis
    using exNdt5_constructed dedup_text_exNdt5 by simp
qed

end
